theory Spec2Isabelle
  imports Main
begin

section \<open>Python values, errors and outcomes\<close>

text \<open>
  The values that travel through \<^verbatim>\<open>lord.py\<close>: \<^verbatim>\<open>None\<close>, booleans, unbounded
  integers, strings, tuples, lists, dictionaries (in insertion order) and callables. A
  callable is opaque and is known by a number.
\<close>

datatype pyval =
    PNone
  | PBool bool
  | PInt int
  | PStr string
  | PTuple "pyval list"
  | PList "pyval list"
  | PDict "(pyval \<times> pyval) list"
  | PFunc nat

text \<open>
  The exceptions the module can raise. \<^verbatim>\<open>SerfError\<close> carries the arguments it was
  built from.

  Modelled from the spec: \<^verbatim>\<open>serf.SerfError\<close> (module \<^verbatim>\<open>serf\<close> is not among the
  sources) is the error signal of the data model, a tagged failure payload.
\<close>

type_synonym kwargs = "(string \<times> pyval) list"

datatype error =
    AttributeError
  | TypeError
  | ValueError
  | AssertionError
  | KeyError
  | IndexError
  | SerfError "pyval list" kwargs

text \<open>A call either returns a value or raises; what it did to the object before it
  raised stays done, so the object is returned beside the outcome in both cases.\<close>

datatype 'a outcome = Return 'a | Raise error

text \<open>A Message on the channel: \<^verbatim>\<open>(operation, args, kwargs)\<close>.\<close>

type_synonym msg = "string \<times> pyval list \<times> kwargs"

text \<open>Truth value of a Python value, as \<^verbatim>\<open>if x:\<close> takes it.\<close>

fun truthy :: "pyval \<Rightarrow> bool" where
  "truthy PNone = False"
| "truthy (PBool b) = b"
| "truthy (PInt i) = (i \<noteq> 0)"
| "truthy (PStr s) = (s \<noteq> [])"
| "truthy (PTuple xs) = (xs \<noteq> [])"
| "truthy (PList xs) = (xs \<noteq> [])"
| "truthy (PDict d) = (d \<noteq> [])"
| "truthy (PFunc f) = True"

text \<open>\<^verbatim>\<open>v == n\<close> for an integer \<^verbatim>\<open>n\<close>: an integer equals itself, and \<^verbatim>\<open>True == 1\<close>,
  \<^verbatim>\<open>False == 0\<close>; no other value of the model equals an integer.\<close>

fun eq_int :: "pyval \<Rightarrow> int \<Rightarrow> bool" where
  "eq_int (PInt i) n = (i = n)"
| "eq_int (PBool b) n = ((if b then 1 else 0) = n)"
| "eq_int _ n = False"

text \<open>\<^verbatim>\<open>v == a\<close> for a string \<^verbatim>\<open>a\<close>: only that string.\<close>

definition eq_str :: "pyval \<Rightarrow> string \<Rightarrow> bool" where
  "eq_str v a = (v = PStr a)"

text \<open>The position a list of \<open>len\<close> elements gives to the index \<^verbatim>\<open>i\<close>: from the
  front when \<^verbatim>\<open>i\<close> is not negative, from the back when it is, none out of range.\<close>

definition list_index :: "nat \<Rightarrow> int \<Rightarrow> nat option" where
  "list_index len i =
     (if 0 \<le> i \<and> i < int len then Some (nat i)
      else if i < 0 \<and> - int len \<le> i then Some (nat (int len + i))
      else None)"

text \<open>\<^verbatim>\<open>obj[k] = v\<close>: dictionaries store, lists store at an index in range; every other
  value of the model has no item assignment.\<close>

fun dict_store :: "(pyval \<times> pyval) list \<Rightarrow> pyval \<Rightarrow> pyval \<Rightarrow> (pyval \<times> pyval) list" where
  "dict_store [] k v = [(k, v)]"
| "dict_store ((k', v') # d) k v = (if k' = k then (k', v) # d else (k', v') # dict_store d k v)"

fun setitem :: "pyval \<Rightarrow> pyval \<Rightarrow> pyval \<Rightarrow> error + pyval" where
  "setitem (PDict d) k v = Inr (PDict (dict_store d k v))"
| "setitem (PList xs) (PInt i) v =
     (case list_index (length xs) i of
        None \<Rightarrow> Inl IndexError
      | Some j \<Rightarrow> Inr (PList (xs[j := v])))"
| "setitem (PList xs) k v = Inl TypeError"
| "setitem obj k v = Inl TypeError"

text \<open>\<^verbatim>\<open>del obj[k]\<close>: dictionaries drop a key they hold, lists drop an index in range;
  every other value of the model has no item deletion.\<close>

fun delitem :: "pyval \<Rightarrow> pyval \<Rightarrow> error + pyval" where
  "delitem (PDict d) k =
     (if k \<in> fst ` set d then Inr (PDict (filter (\<lambda>kv. fst kv \<noteq> k) d)) else Inl KeyError)"
| "delitem (PList xs) (PInt i) =
     (case list_index (length xs) i of
        None \<Rightarrow> Inl IndexError
      | Some j \<Rightarrow> Inr (PList (take j xs @ drop (Suc j) xs)))"
| "delitem (PList xs) k = Inl TypeError"
| "delitem obj k = Inl TypeError"

section \<open>The Lord object\<close>

text \<open>
  The process handle keeps what \<^verbatim>\<open>multiprocessing.Process\<close> was built from: the serf
  class and its construction arguments.
\<close>

datatype proc = Process pyval pyval pyval

text \<open>
  The fields of a \<^verbatim>\<open>Lord\<close>. \<open>u_state\<close> and \<open>u_cbindex\<close> are \<^verbatim>\<open>_state\<close> and
  \<^verbatim>\<open>_cbindex\<close>. \<open>callbacks\<close> is the dictionary \<^verbatim>\<open>self.callbacks\<close> in insertion order.
  \<open>pipe\<close> is \<^verbatim>\<open>self.pipe\<close>: \<open>None\<close> while the attribute does not exist (the constructor
  does not set it), otherwise the messages written to the channel so far, oldest first.
\<close>

record lord =
  u_state :: pyval
  process :: "proc option"
  u_cbindex :: int
  callbacks :: "(string \<times> pyval) list"
  pipe :: "msg list option"

text \<open>\<^verbatim>\<open>Lord.__init__\<close>\<close>

definition Lord_init :: lord where
  "Lord_init = \<lparr>u_state = PNone, process = None, u_cbindex = 0, callbacks = [], pipe = None\<rparr>"

subsection \<open>attach and detatch\<close>

text \<open>
  The first loop of \<^verbatim>\<open>attach\<close>: every entry whose value differs from \<^verbatim>\<open>attr\<close> is
  replaced by an empty dictionary.
\<close>

definition attach_reset :: "(string \<times> pyval) list \<Rightarrow> string \<Rightarrow> (string \<times> pyval) list" where
  "attach_reset cbs attr = map (\<lambda>(k, v). if \<not> eq_str v attr then (k, PDict []) else (k, v)) cbs"

text \<open>
  The second loop of \<^verbatim>\<open>attach\<close>: every entry whose value equals \<^verbatim>\<open>attr\<close> gets
  \<^verbatim>\<open>[cbid] = func\<close>. The loop stops at the first item assignment that raises; the entries
  it has passed keep what they were given.
\<close>

fun attach_store ::
  "(string \<times> pyval) list \<Rightarrow> string \<Rightarrow> int \<Rightarrow> pyval \<Rightarrow> error option \<times> (string \<times> pyval) list" where
  "attach_store [] attr cbid func = (None, [])"
| "attach_store ((k, v) # cbs) attr cbid func =
     (if eq_str v attr then
        (case setitem v (PInt cbid) func of
           Inl e \<Rightarrow> (Some e, (k, v) # cbs)
         | Inr v' \<Rightarrow> (case attach_store cbs attr cbid func of (r, cbs') \<Rightarrow> (r, (k, v') # cbs')))
      else (case attach_store cbs attr cbid func of (r, cbs') \<Rightarrow> (r, (k, v) # cbs')))"

text \<open>\<^verbatim>\<open>Lord.attach(attr, func)\<close>; the event name is a string.\<close>

definition attach :: "lord \<Rightarrow> string \<Rightarrow> pyval \<Rightarrow> int outcome \<times> lord" where
  "attach s attr func =
     (let cbs1 = attach_reset (callbacks s) attr;
          cbid = u_cbindex s;
          s1 = s\<lparr>callbacks := cbs1, u_cbindex := cbid + 1\<rparr>
      in case attach_store cbs1 attr cbid func of
           (Some e, cbs2) \<Rightarrow> (Raise e, s1\<lparr>callbacks := cbs2\<rparr>)
         | (None, cbs2) \<Rightarrow> (Return cbid, s1\<lparr>callbacks := cbs2\<rparr>))"

text \<open>
  The loop of \<^verbatim>\<open>detatch\<close>: at the first entry whose value equals \<^verbatim>\<open>cbid\<close> it deletes
  item \<^verbatim>\<open>cbid\<close> of that value and returns; with no such entry it raises \<^verbatim>\<open>ValueError\<close>.
\<close>

fun detatch_loop :: "(string \<times> pyval) list \<Rightarrow> int \<Rightarrow> unit outcome \<times> (string \<times> pyval) list" where
  "detatch_loop [] cbid = (Raise ValueError, [])"
| "detatch_loop ((k, v) # cbs) cbid =
     (if eq_int v cbid then
        (case delitem v (PInt cbid) of
           Inl e \<Rightarrow> (Raise e, (k, v) # cbs)
         | Inr v' \<Rightarrow> (Return (), (k, v') # cbs))
      else (case detatch_loop cbs cbid of (r, cbs') \<Rightarrow> (r, (k, v) # cbs')))"

text \<open>\<^verbatim>\<open>Lord.detatch(cbid)\<close>; the id is an integer, as \<^verbatim>\<open>attach\<close> returns it.\<close>

definition detatch :: "lord \<Rightarrow> int \<Rightarrow> unit outcome \<times> lord" where
  "detatch s cbid = (case detatch_loop (callbacks s) cbid of (r, cbs') \<Rightarrow> (r, s\<lparr>callbacks := cbs'\<rparr>))"

text \<open>
  A caller's sequence of registry calls, and the ids the \<^verbatim>\<open>attach\<close> calls in it return,
  in call order. A call that raises leaves the object as it was when it raised and the
  caller goes on.
\<close>

datatype reg_call = Attach string pyval | Detatch int

fun returned_ids :: "lord \<Rightarrow> reg_call list \<Rightarrow> int list" where
  "returned_ids s [] = []"
| "returned_ids s (Attach attr func # cs) =
     (case attach s attr func of
        (Return cbid, s') \<Rightarrow> cbid # returned_ids s' cs
      | (Raise e, s') \<Rightarrow> returned_ids s' cs)"
| "returned_ids s (Detatch cbid # cs) = returned_ids (snd (detatch s cbid)) cs"

subsection \<open>send\<close>

text \<open>\<^verbatim>\<open>Lord.send(attr, *args, **kwargs)\<close>: the assertion comes first, then the write to
  \<^verbatim>\<open>self.pipe\<close>, which raises \<^verbatim>\<open>AttributeError\<close> while the attribute does not exist.\<close>

definition send :: "lord \<Rightarrow> pyval \<Rightarrow> pyval list \<Rightarrow> kwargs \<Rightarrow> unit outcome \<times> lord" where
  "send s attr args kw =
     (case attr of
        PStr a \<Rightarrow>
          (case pipe s of
             None \<Rightarrow> (Raise AttributeError, s)
           | Some q \<Rightarrow> (Return (), s\<lparr>pipe := Some (q @ [(a, args, kw)])\<rparr>))
      | _ \<Rightarrow> (Raise AssertionError, s))"

section \<open>The world outside the Lord\<close>

text \<open>
  The worker runs in another process, so what the Lord sees of it is input: \<open>polls\<close> is
  what the successive \<^verbatim>\<open>self.pipe.poll(timeout)\<close> calls will find, \<open>None\<close> for nothing
  pending within the timeout and \<open>Some m\<close> for the message \<^verbatim>\<open>recv()\<close> then reads; after
  the list nothing arrives any more. \<open>lives\<close> is what the successive
  \<^verbatim>\<open>self.process.is_alive()\<close> calls will answer; after the list the process is dead.
  \<open>invoked\<close> is the record of the callbacks called so far, each with the arguments it got.
  A callback is opaque: it returns and leaves the Lord alone.
\<close>

record world =
  polls :: "msg option list"
  lives :: "bool list"
  invoked :: "(nat \<times> pyval list \<times> kwargs) list"


text \<open>
  Modelled from the spec: \<^verbatim>\<open>serf.parse_message\<close> (module \<^verbatim>\<open>serf\<close> is not among the
  sources). Every unit on the channel is a Message triple \<^verbatim>\<open>(operation, args, kwargs)\<close>,
  which the receiving side takes apart.
\<close>

definition parse_message :: "lord \<Rightarrow> msg \<Rightarrow> string \<times> pyval list \<times> kwargs" where
  "parse_message s m = m"

text \<open>
  \<^verbatim>\<open>getattr(self, attr)\<close>. The model follows a message into \<^verbatim>\<open>state\<close> and \<^verbatim>\<open>error\<close>,
  and into no attribute at all (\<open>Absent\<close>: \<^verbatim>\<open>getattr\<close> raises \<^verbatim>\<open>AttributeError\<close>). A
  name of another method or field of the Lord, or a special name (two leading
  underscores) that the object may inherit, is \<open>Beyond\<close>: the model does not say what
  calling it does.
\<close>

datatype member = State | Error | Beyond | Absent

definition lord_getattr :: "string \<Rightarrow> member" where
  "lord_getattr attr =
     (if attr = ''state'' then State
      else if attr = ''error'' then Error
      else if attr \<in> set [''attach'', ''detatch'', ''send'', ''start'', ''stop'', ''update'',
                            ''_state'', ''process'', ''_cbindex'', ''callbacks'', ''pipe'']
              \<or> take 2 attr = ''__'' then Beyond
      else Absent)"

text \<open>
  Binding \<^verbatim>\<open>(*args, **kwargs)\<close> to the parameters \<^verbatim>\<open>(new_state=None, update=False)\<close>
  of \<^verbatim>\<open>state\<close>: too many positional arguments, an unknown keyword, or a parameter given
  twice raise \<^verbatim>\<open>TypeError\<close>.
\<close>

definition bind_state :: "pyval list \<Rightarrow> kwargs \<Rightarrow> error + pyval \<times> pyval" where
  "bind_state args kw =
     (if 2 < length args then Inl TypeError
      else if \<exists>k \<in> fst ` set kw. k \<noteq> ''new_state'' \<and> k \<noteq> ''update'' then Inl TypeError
      else if 1 \<le> length args \<and> map_of kw ''new_state'' \<noteq> None then Inl TypeError
      else if 2 \<le> length args \<and> map_of kw ''update'' \<noteq> None then Inl TypeError
      else Inr
        (if 1 \<le> length args then args ! 0
         else (case map_of kw ''new_state'' of None \<Rightarrow> PNone | Some v \<Rightarrow> v),
         if 2 \<le> length args then args ! 1
         else (case map_of kw ''update'' of None \<Rightarrow> PBool False | Some v \<Rightarrow> v)))"

text \<open>\<^verbatim>\<open>cb(*args, **kwargs)\<close>: a callable is called (and recorded); calling any other
  value raises \<^verbatim>\<open>TypeError\<close>.\<close>

definition call_cb :: "pyval \<Rightarrow> pyval list \<Rightarrow> kwargs \<Rightarrow> world \<Rightarrow> unit outcome \<times> world" where
  "call_cb cb args kw w =
     (case cb of
        PFunc f \<Rightarrow> (Return (), w\<lparr>invoked := invoked w @ [(f, args, kw)]\<rparr>)
      | _ \<Rightarrow> (Raise TypeError, w))"

fun call_all :: "pyval list \<Rightarrow> pyval list \<Rightarrow> kwargs \<Rightarrow> world \<Rightarrow> unit outcome \<times> world" where
  "call_all [] args kw w = (Return (), w)"
| "call_all (cb # cbs) args kw w =
     (case call_cb cb args kw w of
        (Raise e, w') \<Rightarrow> (Raise e, w')
      | (Return u, w') \<Rightarrow> call_all cbs args kw w')"

text \<open>The tail of \<^verbatim>\<open>update\<close>: \<^verbatim>\<open>if attr in self.callbacks: ...\<close>\<close>

definition notify :: "lord \<Rightarrow> world \<Rightarrow> string \<Rightarrow> pyval list \<Rightarrow> kwargs \<Rightarrow> unit outcome \<times> world" where
  "notify s w attr args kw =
     (case map_of (callbacks s) attr of
        None \<Rightarrow> (Return (), w)
      | Some cb_group \<Rightarrow>
          (case cb_group of
             PDict d \<Rightarrow> call_all (map snd d) args kw w
           | PList xs \<Rightarrow> call_all xs args kw w
           | PFunc f \<Rightarrow> call_cb cb_group args kw w
           | _ \<Rightarrow> (Return (), w)))"

section \<open>update and state\<close>

text \<open>
  A call returns \<open>Some\<close> of its outcome, the Lord and the world after it, or \<open>None\<close>
  where the model does not follow it (a \<open>Beyond\<close> attribute) or where a loop was given
  too little fuel.
\<close>

type_synonym 'a result = "('a outcome \<times> lord \<times> world) option"

text \<open>\<^verbatim>\<open>Lord.error(*args, **kwargs)\<close>\<close>

definition error :: "lord \<Rightarrow> world \<Rightarrow> pyval list \<Rightarrow> kwargs \<Rightarrow> unit result" where
  "error s w args kw = Some (Raise (SerfError args kw), s, w)"

text \<open>
  \<^verbatim>\<open>Lord.update(timeout)\<close> and \<^verbatim>\<open>Lord.state(new_state, update)\<close>. They call each
  other: a drained message named \<^verbatim>\<open>state\<close> calls \<^verbatim>\<open>state\<close>, and \<^verbatim>\<open>state\<close> with no
  new state and a true \<^verbatim>\<open>update\<close> calls \<^verbatim>\<open>update\<close>, which drains the next message.
\<close>

function update :: "lord \<Rightarrow> world \<Rightarrow> unit result"
  and state :: "lord \<Rightarrow> world \<Rightarrow> pyval \<Rightarrow> pyval \<Rightarrow> pyval result"
where
  "update s w =
     (case pipe s of
        None \<Rightarrow> Some (Raise AttributeError, s, w)
      | Some q \<Rightarrow>
          (case polls w of
             [] \<Rightarrow> Some (Return (), s, w)
           | None # ps \<Rightarrow> Some (Return (), s, w\<lparr>polls := ps\<rparr>)
           | Some m # ps \<Rightarrow>
               (case parse_message s m of (attr, args, kw) \<Rightarrow>
                  (case lord_getattr attr of
                     Absent \<Rightarrow> Some (Raise AttributeError, s, w\<lparr>polls := ps\<rparr>)
                   | Beyond \<Rightarrow> None
                   | Error \<Rightarrow>
                       (case error s (w\<lparr>polls := ps\<rparr>) args kw of
                          None \<Rightarrow> None
                        | Some (Raise e, s', w') \<Rightarrow> Some (Raise e, s', w')
                        | Some (Return r, s', w') \<Rightarrow>
                            (case notify s' w' attr args kw of
                               (r', w'') \<Rightarrow> Some (r', s', w'')))
                   | State \<Rightarrow>
                       (case bind_state args kw of
                          Inl e \<Rightarrow> Some (Raise e, s, w\<lparr>polls := ps\<rparr>)
                        | Inr (new_state, upd) \<Rightarrow>
                            (case state s (w\<lparr>polls := ps\<rparr>) new_state upd of
                               None \<Rightarrow> None
                             | Some (Raise e, s', w') \<Rightarrow> Some (Raise e, s', w')
                             | Some (Return r, s', w') \<Rightarrow>
                                 (case notify s' w' attr args kw of
                                    (r', w'') \<Rightarrow> Some (r', s', w''))))))))"
| "state s w new_state upd =
     (if new_state = PNone then
        (if truthy upd then
           (case update s w of
              None \<Rightarrow> None
            | Some (Raise e, s', w') \<Rightarrow> Some (Raise e, s', w')
            | Some (Return u, s', w') \<Rightarrow> Some (Return (u_state s'), s', w'))
         else Some (Return (u_state s), s, w))
      else Some (Return PNone, s\<lparr>u_state := new_state\<rparr>, w))"
  by pat_completeness auto
termination
  by (relation "measure (\<lambda>x. case x of
        Inl (s, w) \<Rightarrow> 2 * length (polls w) + 1
      | Inr (s, w, n, u) \<Rightarrow> 2 * length (polls w) + 2)") auto

declare update.simps [simp del] state.simps [simp del]

section \<open>start and stop\<close>


text \<open>The Lord after \<^verbatim>\<open>start\<close> has made the channel and the process.\<close>

definition spawn :: "lord \<Rightarrow> pyval \<Rightarrow> pyval \<Rightarrow> pyval \<Rightarrow> lord" where
  "spawn s serf_class args kw = s\<lparr>pipe := Some [], process := Some (Process serf_class args kw)\<rparr>"





section \<open>What a drain may change\<close>


section \<open>The registry\<close>

lemma attach_cbindex: "u_cbindex (snd (attach s attr func)) = u_cbindex s + 1"
  by (simp add: attach_def Let_def split: prod.splits option.splits)

lemma attach_returns: "attach s attr func = (Return cbid, s') \<Longrightarrow> cbid = u_cbindex s"
  by (auto simp: attach_def Let_def split: prod.splits option.splits)

lemma detatch_cbindex: "u_cbindex (snd (detatch s cbid)) = u_cbindex s"
  by (simp add: detatch_def split: prod.splits)

lemma returned_ids_lower: "i \<in> set (returned_ids s cs) \<Longrightarrow> u_cbindex s \<le> i"
proof (induction s cs rule: returned_ids.induct)
  case (1 s)
  then show ?case by simp
next
  case (2 s attr func cs)
  obtain r s' where a: "attach s attr func = (r, s')" by (cases "attach s attr func")
  have n: "u_cbindex s' = u_cbindex s + 1" using attach_cbindex [of s attr func] a by simp
  show ?case
  proof (cases r)
    case (Return cbid)
    then have "cbid = u_cbindex s" using a attach_returns by blast
    then show ?thesis using 2 a Return n by auto
  next
    case (Raise e)
    then show ?thesis using 2 a n by auto
  qed
next
  case (3 s cbid cs)
  then show ?case using detatch_cbindex [of s cbid] by auto
qed

lemma returned_ids_sorted: "sorted_wrt (<) (returned_ids s cs)"
proof (induction s cs rule: returned_ids.induct)
  case (1 s)
  then show ?case by simp
next
  case (2 s attr func cs)
  obtain r s' where a: "attach s attr func = (r, s')" by (cases "attach s attr func")
  have n: "u_cbindex s' = u_cbindex s + 1" using attach_cbindex [of s attr func] a by simp
  show ?case
  proof (cases r)
    case (Return cbid)
    then have c: "cbid = u_cbindex s" using a attach_returns by blast
    have "\<forall>i \<in> set (returned_ids s' cs). cbid < i"
      using returned_ids_lower [of _ s' cs] n c by fastforce
    then show ?thesis using 2 a Return by simp
  next
    case (Raise e)
    then show ?thesis using 2 a by simp
  qed
next
  case (3 s cbid cs)
  then show ?case by simp
qed

text \<open>
  C3. Whatever the Lord holds, and however \<^verbatim>\<open>attach\<close> and \<^verbatim>\<open>detatch\<close> calls follow one
  another, the ids the \<^verbatim>\<open>attach\<close> calls return grow strictly in call order: they are
  pairwise distinct, none is below the counter the sequence started from, and none comes
  back after a \<^verbatim>\<open>detatch\<close>.
\<close>

theorem attach_ids_increasing:
  "sorted_wrt (<) (returned_ids s cs) \<and> distinct (returned_ids s cs)
   \<and> (\<forall>i \<in> set (returned_ids s cs). u_cbindex s \<le> i)"
  using returned_ids_sorted [of s cs] returned_ids_lower [of _ s cs]
  by (auto simp: strict_sorted_iff intro: sorted_wrt_mono_rel dest: strict_sorted_imp_sorted)

theorem attach_ids_increasing_witness:
  "returned_ids Lord_init
     [Attach ''state'' (PFunc 1), Detatch 0, Attach ''state'' (PFunc 2), Attach ''done'' (PFunc 1)] = [0, 1, 2]
   \<and> sorted_wrt (<) [0, 1, 2 :: int] \<and> distinct [0, 1, 2 :: int]"
  using attach_ids_increasing [of Lord_init
     "[Attach ''state'' (PFunc 1), Detatch 0, Attach ''state'' (PFunc 2), Attach ''done'' (PFunc 1)]"]
  by (simp add: Lord_init_def attach_def attach_reset_def detatch_def)

lemma eq_int_delitem: "eq_int v cbid \<Longrightarrow> delitem v k = Inl TypeError"
  by (cases v) auto

lemma detatch_loop_raises: "fst (detatch_loop cbs cbid) \<noteq> Return ()"
  by (induction cbs cbid rule: detatch_loop.induct) (auto simp: eq_int_delitem split: prod.splits)

lemma detatch_loop_keeps: "snd (detatch_loop cbs cbid) = cbs"
  by (induction cbs cbid rule: detatch_loop.induct) (auto simp: eq_int_delitem split: prod.splits)

text \<open>In no registry does \<^verbatim>\<open>detatch\<close> remove anything: it always raises, and the Lord
  is as before.\<close>

lemma detatch_never_removes: "\<exists>e. detatch s cbid = (Raise e, s)"
proof -
  obtain r cbs' where d: "detatch_loop (callbacks s) cbid = (r, cbs')"
    by (cases "detatch_loop (callbacks s) cbid")
  have "cbs' = callbacks s" using detatch_loop_keeps [of "callbacks s" cbid] d by simp
  moreover have "r \<noteq> Return ()" using detatch_loop_raises [of "callbacks s" cbid] d by simp
  ultimately show ?thesis using d by (cases r) (auto simp: detatch_def)
qed

lemma attach_store_keeps: "snd (attach_store cbs attr cbid func) = cbs"
  by (induction cbs attr cbid func rule: attach_store.induct) (auto simp: eq_str_def split: prod.splits)

text \<open>\<^verbatim>\<open>attach\<close> never stores \<^verbatim>\<open>func\<close>: the registry after it is the registry before it
  with every value other than the event name emptied, and it has the same keys.\<close>

lemma attach_registers_nothing:
  "callbacks (snd (attach s attr func)) = attach_reset (callbacks s) attr"
  using attach_store_keeps [of "attach_reset (callbacks s) attr" attr "u_cbindex s" func]
  by (auto simp: attach_def Let_def split: prod.splits option.splits)

text \<open>
  C2. On a new Lord, \<^verbatim>\<open>attach('state', f)\<close> returns the id 0 and leaves the registry
  empty; \<^verbatim>\<open>detatch(0)\<close> on the id just returned then raises \<^verbatim>\<open>ValueError\<close> instead of
  removing a callback.
\<close>

theorem detatch_of_attached_id_raises:
  "attach Lord_init ''state'' (PFunc 7) = (Return 0, Lord_init\<lparr>u_cbindex := 1\<rparr>)
   \<and> detatch (Lord_init\<lparr>u_cbindex := 1\<rparr>) 0 = (Raise ValueError, Lord_init\<lparr>u_cbindex := 1\<rparr>)"
  by (simp add: Lord_init_def attach_def attach_reset_def detatch_def)

section \<open>send\<close>

text \<open>
  C4, as stated, fails on a Lord that was never started: it has no channel yet, and
  \<^verbatim>\<open>send\<close> of a string operation raises \<^verbatim>\<open>AttributeError\<close>.
\<close>

theorem send_before_start_counterexample:
  "send Lord_init (PStr ''exit'') [] [] = (Raise AttributeError, Lord_init)
   \<and> pipe Lord_init = None"
  by (simp add: send_def Lord_init_def)

text \<open>
  C4, amended. An operation that is not a string makes \<^verbatim>\<open>send\<close> raise
  \<^verbatim>\<open>AssertionError\<close> and nothing is written; a string operation on a Lord whose channel
  exists writes exactly the triple (operation, args, kwargs) at the end of the channel;
  a string operation on a Lord with no channel yet raises \<^verbatim>\<open>AttributeError\<close> and nothing
  is written.
\<close>

theorem send_contract:
  "((\<forall>a. attr \<noteq> PStr a) \<longrightarrow> send s attr args kw = (Raise AssertionError, s))
   \<and> (pipe s = Some q \<longrightarrow>
        send s (PStr a) args kw = (Return (), s\<lparr>pipe := Some (q @ [(a, args, kw)])\<rparr>))
   \<and> (pipe s = None \<longrightarrow> send s (PStr a) args kw = (Raise AttributeError, s))"
  by (cases attr) (auto simp: send_def)

theorem send_contract_witness:
  "send (spawn Lord_init (PStr ''Serf'') PNone PNone) (PInt 3) [] [] =
     (Raise AssertionError, spawn Lord_init (PStr ''Serf'') PNone PNone)
   \<and> send (spawn Lord_init (PStr ''Serf'') PNone PNone) (PStr ''sleep'') [PInt 1] [] =
     (Return (), (spawn Lord_init (PStr ''Serf'') PNone PNone)\<lparr>pipe := Some [(''sleep'', [PInt 1], [])]\<rparr>)
   \<and> send Lord_init (PStr ''sleep'') [PInt 1] [] = (Raise AttributeError, Lord_init)"
  using send_contract [of "PInt 3" "spawn Lord_init (PStr ''Serf'') PNone PNone" "[]" "[]" "[]" "''sleep''"]
    send_contract [of "PInt 3" "spawn Lord_init (PStr ''Serf'') PNone PNone" "[PInt 1]" "[]" "[]" "''sleep''"]
    send_contract [of "PInt 3" Lord_init "[PInt 1]" "[]" "[]" "''sleep''"]
  by (simp add: spawn_def Lord_init_def)

section \<open>Draining one message\<close>

lemma call_cb_frame: "call_cb cb args kw w = (r, w') \<Longrightarrow> polls w' = polls w \<and> lives w' = lives w"
  by (auto simp: call_cb_def split: pyval.splits)

lemma call_all_frame: "call_all cbs args kw w = (r, w') \<Longrightarrow> polls w' = polls w \<and> lives w' = lives w"
proof (induction cbs arbitrary: w)
  case Nil
  then show ?case by simp
next
  case (Cons cb cbs)
  obtain r1 w1 where c: "call_cb cb args kw w = (r1, w1)" by (cases "call_cb cb args kw w")
  then have f: "polls w1 = polls w \<and> lives w1 = lives w" by (rule call_cb_frame)
  show ?case
  proof (cases r1)
    case (Return u)
    then show ?thesis using Cons c f by auto
  next
    case (Raise e)
    then show ?thesis using Cons.prems c f by auto
  qed
qed

lemma notify_frame: "notify s w attr args kw = (r, w') \<Longrightarrow> polls w' = polls w \<and> lives w' = lives w"
  by (auto simp: notify_def split: option.splits pyval.splits dest: call_all_frame call_cb_frame)




lemma update_absent:
  "pipe s = Some q \<Longrightarrow> polls w = Some (attr, args, kw) # ps \<Longrightarrow> lord_getattr attr = Absent \<Longrightarrow>
   update s w = Some (Raise AttributeError, s, w\<lparr>polls := ps\<rparr>)"
  by (simp add: update.simps parse_message_def)


lemma update_error:
  "pipe s = Some q \<Longrightarrow> polls w = Some (attr, args, kw) # ps \<Longrightarrow> lord_getattr attr = Error \<Longrightarrow>
   update s w = Some (Raise (SerfError args kw), s, w\<lparr>polls := ps\<rparr>)"
  by (simp add: update.simps parse_message_def error_def)


lemma update_state_call:
  "pipe s = Some q \<Longrightarrow> polls w = Some (attr, args, kw) # ps \<Longrightarrow> lord_getattr attr = State \<Longrightarrow>
   bind_state args kw = Inr (new_state, upd) \<Longrightarrow>
   update s w =
     (case state s (w\<lparr>polls := ps\<rparr>) new_state upd of
        None \<Rightarrow> None
      | Some (Raise e, s', w') \<Rightarrow> Some (Raise e, s', w')
      | Some (Return r, s', w') \<Rightarrow>
          (case notify s' w' attr args kw of (r', w'') \<Rightarrow> Some (r', s', w'')))"
  by (simp add: update.simps parse_message_def)

lemma state_set: "new_state \<noteq> PNone \<Longrightarrow>
   state s w new_state upd = Some (Return PNone, s\<lparr>u_state := new_state\<rparr>, w)"
  by (simp add: state.simps)

lemma state_get: "\<not> truthy upd \<Longrightarrow> state s w PNone upd = Some (Return (u_state s), s, w)"
  by (simp add: state.simps)







lemma call_all_callables:
  "call_all (map PFunc fs) args kw w =
     (Return (), w\<lparr>invoked := invoked w @ map (\<lambda>f. (f, args, kw)) fs\<rparr>)"
proof (induction fs arbitrary: w)
  case Nil
  then show ?case by simp
next
  case (Cons f fs)
  then show ?case by (simp add: call_cb_def)
qed

lemma notify_no_entry: "map_of (callbacks s) attr = None \<Longrightarrow> notify s w attr args kw = (Return (), w)"
  by (simp add: notify_def)


lemma notify_list:
  "map_of (callbacks s) attr = Some (PList (map PFunc fs)) \<Longrightarrow>
   notify s w attr args kw = (Return (), w\<lparr>invoked := invoked w @ map (\<lambda>f. (f, args, kw)) fs\<rparr>)"
  by (simp add: notify_def call_all_callables)

lemma state_handled:
  "new_state \<noteq> PNone \<or> \<not> truthy upd \<Longrightarrow>
   \<exists>r. state s w new_state upd = Some (Return r, (if new_state = PNone then s else s\<lparr>u_state := new_state\<rparr>), w)"
  by (cases "new_state = PNone") (auto simp: state_set state_get)

lemma update_state_handled:
  assumes "pipe s = Some q" and "polls w = Some (attr, args, kw) # ps"
    and "lord_getattr attr = State" and "bind_state args kw = Inr (v, upd)"
    and "v \<noteq> PNone \<or> \<not> truthy upd"
  shows "update s w =
     (case notify (if v = PNone then s else s\<lparr>u_state := v\<rparr>) (w\<lparr>polls := ps\<rparr>) attr args kw of
        (r', w'') \<Rightarrow> Some (r', (if v = PNone then s else s\<lparr>u_state := v\<rparr>), w''))"
proof -
  obtain r where "state s (w\<lparr>polls := ps\<rparr>) v upd =
      Some (Return r, (if v = PNone then s else s\<lparr>u_state := v\<rparr>), w\<lparr>polls := ps\<rparr>)"
    using state_handled [OF assms(5)] by blast
  then show ?thesis using update_state_call [OF assms(1-4)] by simp
qed




text \<open>
  C5, as stated, fails for a state report whose value is \<^verbatim>\<open>None\<close>: the cached state
  1 is still 1 after the \<^verbatim>\<open>update\<close> that drains it, and \<^verbatim>\<open>state()\<close> returns 1.
\<close>

theorem state_report_none_counterexample:
  "update ((spawn Lord_init (PStr ''Serf'') PNone PNone)\<lparr>u_state := PInt 1\<rparr>)
        \<lparr>polls = [Some (''state'', [PNone], [])], lives = [], invoked = []\<rparr> =
     Some (Return (), (spawn Lord_init (PStr ''Serf'') PNone PNone)\<lparr>u_state := PInt 1\<rparr>,
        \<lparr>polls = [], lives = [], invoked = []\<rparr>)
   \<and> state ((spawn Lord_init (PStr ''Serf'') PNone PNone)\<lparr>u_state := PInt 1\<rparr>)
        \<lparr>polls = [], lives = [], invoked = []\<rparr> PNone (PBool False) =
     Some (Return (PInt 1), (spawn Lord_init (PStr ''Serf'') PNone PNone)\<lparr>u_state := PInt 1\<rparr>,
        \<lparr>polls = [], lives = [], invoked = []\<rparr>)
   \<and> PInt 1 \<noteq> PNone"
  by (simp add: spawn_def Lord_init_def update.simps state.simps
      parse_message_def lord_getattr_def bind_state_def notify_def)

text \<open>
  C5, amended. When a state report is pending whose arguments give \<^verbatim>\<open>new_state\<close> a
  value \<open>v\<close> other than \<^verbatim>\<open>None\<close>, one \<^verbatim>\<open>update\<close> takes the report off the channel and
  leaves the Lord with cached state \<open>v\<close> and nothing else changed, and \<^verbatim>\<open>state()\<close> then
  returns \<open>v\<close>.
\<close>

theorem update_state_report:
  assumes "pipe s = Some q" and "polls w = Some (''state'', args, kw) # ps"
    and "bind_state args kw = Inr (v, upd)" and "v \<noteq> PNone"
  shows "\<exists>r w'. update s w = Some (r, s\<lparr>u_state := v\<rparr>, w') \<and> polls w' = ps
           \<and> state (s\<lparr>u_state := v\<rparr>) w' PNone (PBool False) =
               Some (Return v, s\<lparr>u_state := v\<rparr>, w')"
proof -
  have g: "lord_getattr ''state'' = State" by (simp add: lord_getattr_def)
  obtain r' w'' where n: "notify (s\<lparr>u_state := v\<rparr>) (w\<lparr>polls := ps\<rparr>) ''state'' args kw = (r', w'')"
    by (cases "notify (s\<lparr>u_state := v\<rparr>) (w\<lparr>polls := ps\<rparr>) ''state'' args kw")
  have "update s w = Some (r', s\<lparr>u_state := v\<rparr>, w'')"
    using update_state_handled [OF assms(1,2) g assms(3)] assms(4) n by simp
  moreover have "polls w'' = ps" using notify_frame [OF n] by simp
  moreover have "state (s\<lparr>u_state := v\<rparr>) w'' PNone (PBool False) =
      Some (Return v, s\<lparr>u_state := v\<rparr>, w'')"
    by (simp add: state_get)
  ultimately show ?thesis by blast
qed

theorem update_state_report_witness:
  "\<exists>r w'. update (spawn Lord_init (PStr ''Serf'') PNone PNone)
             \<lparr>polls = [Some (''state'', [PInt 5], [])], lives = [], invoked = []\<rparr> =
           Some (r, (spawn Lord_init (PStr ''Serf'') PNone PNone)\<lparr>u_state := PInt 5\<rparr>, w')
         \<and> polls w' = []
         \<and> state ((spawn Lord_init (PStr ''Serf'') PNone PNone)\<lparr>u_state := PInt 5\<rparr>) w' PNone (PBool False) =
             Some (Return (PInt 5), (spawn Lord_init (PStr ''Serf'') PNone PNone)\<lparr>u_state := PInt 5\<rparr>, w')"
  using update_state_report [where s = "spawn Lord_init (PStr ''Serf'') PNone PNone"
      and q = "[]" and w = "\<lparr>polls = [Some (''state'', [PInt 5], [])], lives = [], invoked = []\<rparr>"
      and args = "[PInt 5]" and kw = "[]" and ps = "[]" and v = "PInt 5" and upd = "PBool False"]
  by (simp add: spawn_def Lord_init_def bind_state_def)

text \<open>
  C6. When an error signal is pending, \<^verbatim>\<open>update\<close> takes it off the channel and raises
  \<^verbatim>\<open>SerfError\<close>, built from the arguments of the signal, to its caller; the Lord is
  unchanged.
\<close>

theorem update_error_signal:
  assumes "pipe s = Some q" and "polls w = Some (''error'', args, kw) # ps"
  shows "update s w = Some (Raise (SerfError args kw), s, w\<lparr>polls := ps\<rparr>)"
  using update_error [OF assms] by (simp add: lord_getattr_def)

theorem update_error_signal_witness:
  "update (spawn Lord_init (PStr ''Serf'') PNone PNone)
        \<lparr>polls = [Some (''error'', [PStr ''boom''], [])], lives = [], invoked = []\<rparr> =
     Some (Raise (SerfError [PStr ''boom''] []), spawn Lord_init (PStr ''Serf'') PNone PNone,
        \<lparr>polls = [], lives = [], invoked = []\<rparr>)"
  using update_error_signal [where s = "spawn Lord_init (PStr ''Serf'') PNone PNone"
      and q = "[]" and w = "\<lparr>polls = [Some (''error'', [PStr ''boom''], [])], lives = [], invoked = []\<rparr>"
      and args = "[PStr ''boom'']" and kw = "[]" and ps = "[]"]
  by (simp add: spawn_def Lord_init_def)

text \<open>
  C7, as stated, fails: \<^verbatim>\<open>tick\<close> is no reserved name and the registry has no entry for
  it, and the \<^verbatim>\<open>update\<close> that drains a message of that name raises \<^verbatim>\<open>AttributeError\<close>.
\<close>

theorem unknown_operation_counterexample:
  "lord_getattr ''tick'' = Absent
   \<and> map_of (callbacks (spawn Lord_init (PStr ''Serf'') PNone PNone)) ''tick'' = None
   \<and> update (spawn Lord_init (PStr ''Serf'') PNone PNone)
        \<lparr>polls = [Some (''tick'', [], [])], lives = [], invoked = []\<rparr> =
     Some (Raise AttributeError, spawn Lord_init (PStr ''Serf'') PNone PNone,
        \<lparr>polls = [], lives = [], invoked = []\<rparr>)"
  by (simp add: spawn_def Lord_init_def update.simps parse_message_def lord_getattr_def)

text \<open>
  C7, amended. With no entry in the registry for the operation of the pending message:
  when the operation is no attribute of the Lord, \<^verbatim>\<open>update\<close> raises \<^verbatim>\<open>AttributeError\<close>;
  when the Lord handles the operation itself and without error (a state report: a new
  state, or no new state and no nested update), \<^verbatim>\<open>update\<close> returns without raising, so
  the missing entry is no error.
\<close>

theorem update_without_entry:
  assumes "pipe s = Some q" and "polls w = Some (attr, args, kw) # ps"
    and "map_of (callbacks s) attr = None"
  shows "(lord_getattr attr = Absent \<longrightarrow>
            update s w = Some (Raise AttributeError, s, w\<lparr>polls := ps\<rparr>))
       \<and> (lord_getattr attr = State \<longrightarrow> bind_state args kw = Inr (v, upd) \<longrightarrow>
            (v \<noteq> PNone \<or> \<not> truthy upd) \<longrightarrow>
            update s w = Some (Return (), (if v = PNone then s else s\<lparr>u_state := v\<rparr>),
              w\<lparr>polls := ps\<rparr>))"
proof (intro conjI impI)
  assume "lord_getattr attr = Absent"
  then show "update s w = Some (Raise AttributeError, s, w\<lparr>polls := ps\<rparr>)"
    using update_absent [OF assms(1,2)] by simp
next
  assume a: "lord_getattr attr = State" "bind_state args kw = Inr (v, upd)"
    "v \<noteq> PNone \<or> \<not> truthy upd"
  let ?s = "if v = PNone then s else s\<lparr>u_state := v\<rparr>"
  have "map_of (callbacks ?s) attr = None" using assms(3) by simp
  then have "notify ?s (w\<lparr>polls := ps\<rparr>) attr args kw = (Return (), w\<lparr>polls := ps\<rparr>)"
    by (rule notify_no_entry)
  then show "update s w = Some (Return (), ?s, w\<lparr>polls := ps\<rparr>)"
    using update_state_handled [OF assms(1,2) a] by simp
qed

theorem update_without_entry_witness:
  "update (spawn Lord_init (PStr ''Serf'') PNone PNone)
        \<lparr>polls = [Some (''done'', [PInt 2], [])], lives = [], invoked = []\<rparr> =
     Some (Raise AttributeError, spawn Lord_init (PStr ''Serf'') PNone PNone,
        \<lparr>polls = [], lives = [], invoked = []\<rparr>)
   \<and> update (spawn Lord_init (PStr ''Serf'') PNone PNone)
        \<lparr>polls = [Some (''state'', [PStr ''ready''], [])], lives = [], invoked = []\<rparr> =
     Some (Return (), (spawn Lord_init (PStr ''Serf'') PNone PNone)\<lparr>u_state := PStr ''ready''\<rparr>,
        \<lparr>polls = [], lives = [], invoked = []\<rparr>)"
  using update_without_entry [where s = "spawn Lord_init (PStr ''Serf'') PNone PNone"
      and q = "[]" and w = "\<lparr>polls = [Some (''done'', [PInt 2], [])], lives = [], invoked = []\<rparr>"
      and attr = "''done''" and args = "[PInt 2]" and kw = "[]" and ps = "[]"]
    update_without_entry [where s = "spawn Lord_init (PStr ''Serf'') PNone PNone"
      and q = "[]" and w = "\<lparr>polls = [Some (''state'', [PStr ''ready''], [])], lives = [], invoked = []\<rparr>"
      and attr = "''state''" and args = "[PStr ''ready'']" and kw = "[]" and ps = "[]"
      and v = "PStr ''ready''" and upd = "PBool False"]
  by (simp add: spawn_def Lord_init_def lord_getattr_def bind_state_def)



section \<open>start\<close>







section \<open>stop\<close>







end
